theory Spec2Isabelle
  imports Main
begin

section \<open>Python values, texts and exceptions\<close>

text \<open>
  The tool wrappers of \<^verbatim>\<open>src/tools/custom_tools.py\<close> exchange texts and the objects that
  \<^verbatim>\<open>json.loads\<close> builds: \<^verbatim>\<open>None\<close>, booleans, integers, floats, strings, lists and
  dictionaries with string keys. A float is kept as its \<^verbatim>\<open>repr\<close> text, which determines
  it. A dictionary is the list of its items in insertion order (its keys are distinct).
  A string is a list of characters with code points below 256.
\<close>

datatype py_value =
    PyNone
  | PyBool bool
  | PyInt int
  | PyFloat string
  | PyStr string
  | PyList "py_value list"
  | PyDict "(string \<times> py_value) list"

text \<open>
  The exceptions the modelled code can raise. \<^verbatim>\<open>json.JSONDecodeError\<close> is the one the
  wrappers name; the others are caught by \<^verbatim>\<open>except Exception\<close>. A validation error
  carries the names of the offending fields; the \<^verbatim>\<open>TypeError\<close>s and the
  \<^verbatim>\<open>AttributeError\<close> carry the offending object.
\<close>

datatype py_exn =
    JSONDecodeError
  | ValidationError "string list"
  | NotAMapping py_value
  | NotIterable py_value
  | Unhashable py_value
  | NoAttribute py_value string
  | KeyError string
  | IndexError

text \<open>
  What the code takes from the Python runtime and its libraries and the repository does
  not define: the JSON parser (\<open>None\<close> when \<^verbatim>\<open>json.loads\<close> raises
  \<^verbatim>\<open>JSONDecodeError\<close>), the built-in \<^verbatim>\<open>hash\<close> on strings (salted per process), the text
  \<^verbatim>\<open>str(e)\<close> of an exception, and whether the installed pydantic turns numbers into
  strings for a \<^verbatim>\<open>str\<close> field (major version 1 does, major version 2 does not).
\<close>

record py_runtime =
  json_loads :: "string \<Rightarrow> py_value option"
  py_hash :: "string \<Rightarrow> int"
  exn_text :: "py_exn \<Rightarrow> string"
  lax_str :: bool

definition squote :: char where
  "squote = CHR 0x27"

definition dquote :: char where
  "dquote = CHR 0x22"

definition bslash :: char where
  "bslash = CHR 0x5C"

subsection \<open>Decimal and hexadecimal digits\<close>

definition digit_char :: "nat \<Rightarrow> char" where
  "digit_char d = ''0123456789'' ! d"

fun show_nat :: "nat \<Rightarrow> string" where
  "show_nat n = (if n < 10 then [digit_char n] else show_nat (n div 10) @ [digit_char (n mod 10)])"

declare show_nat.simps [simp del]

text \<open>\<^verbatim>\<open>str\<close> of a Python integer.\<close>

definition show_int :: "int \<Rightarrow> string" where
  "show_int i = (if i < 0 then CHR ''-'' # show_nat (nat (- i)) else show_nat (nat i))"

definition hex_digit :: "nat \<Rightarrow> char" where
  "hex_digit d = ''0123456789abcdef'' ! d"

definition hex2 :: "nat \<Rightarrow> string" where
  "hex2 n = [hex_digit (n div 16), hex_digit (n mod 16)]"

subsection \<open>\<^verbatim>\<open>repr\<close>, \<^verbatim>\<open>str\<close>, \<^verbatim>\<open>json.dumps\<close> and truth values\<close>

fun join :: "string \<Rightarrow> string list \<Rightarrow> string" where
  "join sep [] = []"
| "join sep [x] = x"
| "join sep (x # y # ys) = x @ sep @ join sep (y # ys)"

text \<open>
  \<^verbatim>\<open>repr\<close> of a string: double quotes when the text has a single quote and no double
  quote, single quotes otherwise; the quote and the backslash are escaped, and so is every
  character that is not printable.
\<close>

definition repr_char :: "char \<Rightarrow> char \<Rightarrow> string" where
  "repr_char q c =
     (let n = (of_char c :: nat) in
      if c = q \<or> c = bslash then [bslash, c]
      else if n = 9 then [bslash, CHR ''t'']
      else if n = 10 then [bslash, CHR ''n'']
      else if n = 13 then [bslash, CHR ''r'']
      else if n < 32 \<or> n = 127 \<or> (128 \<le> n \<and> n \<le> 160) \<or> n = 173
        then [bslash, CHR ''x''] @ hex2 n
      else [c])"

definition repr_str :: "string \<Rightarrow> string" where
  "repr_str s =
     (let q = (if squote \<in> set s \<and> dquote \<notin> set s then dquote else squote)
      in q # concat (map (repr_char q) s) @ [q])"

fun py_repr :: "py_value \<Rightarrow> string" where
  "py_repr PyNone = ''None''"
| "py_repr (PyBool b) = (if b then ''True'' else ''False'')"
| "py_repr (PyInt i) = show_int i"
| "py_repr (PyFloat r) = r"
| "py_repr (PyStr s) = repr_str s"
| "py_repr (PyList xs) = ''['' @ join '', '' (map py_repr xs) @ '']''"
| "py_repr (PyDict kvs) =
     ''{'' @ join '', '' (map (\<lambda>kv. repr_str (fst kv) @ '': '' @ py_repr (snd kv)) kvs) @ ''}''"

text \<open>\<^verbatim>\<open>str(x)\<close>, which is also how an f-string renders \<^verbatim>\<open>{x}\<close>.\<close>

fun py_str :: "py_value \<Rightarrow> string" where
  "py_str (PyStr s) = s"
| "py_str v = py_repr v"

text \<open>\<^verbatim>\<open>json.dumps\<close> with its defaults: ASCII output, separators \<^verbatim>\<open>, \<close> and \<^verbatim>\<open>: \<close>.\<close>

definition json_char :: "char \<Rightarrow> string" where
  "json_char c =
     (let n = (of_char c :: nat) in
      if c = dquote \<or> c = bslash then [bslash, c]
      else if n = 10 then [bslash, CHR ''n'']
      else if n = 13 then [bslash, CHR ''r'']
      else if n = 9 then [bslash, CHR ''t'']
      else if n = 8 then [bslash, CHR ''b'']
      else if n = 12 then [bslash, CHR ''f'']
      else if n < 32 \<or> 127 \<le> n then [bslash, CHR ''u'', CHR ''0'', CHR ''0''] @ hex2 n
      else [c])"

definition json_str :: "string \<Rightarrow> string" where
  "json_str s = dquote # concat (map json_char s) @ [dquote]"

fun json_dumps :: "py_value \<Rightarrow> string" where
  "json_dumps PyNone = ''null''"
| "json_dumps (PyBool b) = (if b then ''true'' else ''false'')"
| "json_dumps (PyInt i) = show_int i"
| "json_dumps (PyFloat r) =
     (if r = ''nan'' then ''NaN'' else if r = ''inf'' then ''Infinity''
      else if r = ''-inf'' then ''-Infinity'' else r)"
| "json_dumps (PyStr s) = json_str s"
| "json_dumps (PyList xs) = ''['' @ join '', '' (map json_dumps xs) @ '']''"
| "json_dumps (PyDict kvs) =
     ''{'' @ join '', '' (map (\<lambda>kv. json_str (fst kv) @ '': '' @ json_dumps (snd kv)) kvs) @ ''}''"

text \<open>The truth value of an object, as \<^verbatim>\<open>if x\<close> and \<^verbatim>\<open>x or y\<close> test it.\<close>

fun truthy :: "py_value \<Rightarrow> bool" where
  "truthy PyNone = False"
| "truthy (PyBool b) = b"
| "truthy (PyInt i) = (i \<noteq> 0)"
| "truthy (PyFloat r) = (r \<noteq> ''0.0'' \<and> r \<noteq> ''-0.0'')"
| "truthy (PyStr s) = (s \<noteq> [])"
| "truthy (PyList xs) = (xs \<noteq> [])"
| "truthy (PyDict kvs) = (kvs \<noteq> [])"

text \<open>\<^verbatim>\<open>needle in haystack\<close> on strings.\<close>

fun contains :: "string \<Rightarrow> string \<Rightarrow> bool" where
  "contains needle [] = (needle = [])"
| "contains needle (c # cs) =
     (take (length needle) (c # cs) = needle \<or> contains needle cs)"

section \<open>Effects: printed lines and exceptions\<close>

text \<open>
  A computation prints lines and then either raises or returns. The lines printed before
  an exception stay printed.
\<close>

type_synonym 'a py = "string list \<times> (py_exn + 'a)"

type_synonym py_dict = "(string \<times> py_value) list"

definition py_return :: "'a \<Rightarrow> 'a py" where
  "py_return x = ([], Inr x)"

definition py_lift :: "py_exn + 'a \<Rightarrow> 'a py" where
  "py_lift r = ([], r)"

definition py_print :: "string \<Rightarrow> unit py" where
  "py_print line = ([line], Inr ())"

definition py_bind :: "'a py \<Rightarrow> ('a \<Rightarrow> 'b py) \<Rightarrow> 'b py" where
  "py_bind m f =
     (case m of
        (out, Inl e) \<Rightarrow> (out, Inl e)
      | (out, Inr x) \<Rightarrow> (case f x of (out', r) \<Rightarrow> (out @ out', r)))"

text \<open>\<^verbatim>\<open>try: m except ...: h\<close>\<close>

definition py_try :: "'a py \<Rightarrow> (py_exn \<Rightarrow> 'a py) \<Rightarrow> 'a py" where
  "py_try m h =
     (case m of
        (out, Inl e) \<Rightarrow> (case h e of (out', r) \<Rightarrow> (out @ out', r))
      | (out, Inr x) \<Rightarrow> (out, Inr x))"

text \<open>A \<^verbatim>\<open>for\<close> loop whose body returns nothing, and one that collects a list.\<close>

fun py_for :: "('a \<Rightarrow> 'b py) \<Rightarrow> 'a list \<Rightarrow> unit py" where
  "py_for body [] = py_return ()"
| "py_for body (x # xs) = py_bind (body x) (\<lambda>_. py_for body xs)"


subsection \<open>Operations on objects\<close>

text \<open>Iteration: a list yields its items, a dictionary its keys, a string its characters.\<close>

fun py_iter :: "py_value \<Rightarrow> py_exn + py_value list" where
  "py_iter (PyList xs) = Inr xs"
| "py_iter (PyDict kvs) = Inr (map (\<lambda>kv. PyStr (fst kv)) kvs)"
| "py_iter (PyStr s) = Inr (map (\<lambda>c. PyStr [c]) s)"
| "py_iter v = Inl (NotIterable v)"

text \<open>\<^verbatim>\<open>d.get(k, default)\<close> and \<^verbatim>\<open>d[k]\<close> on a dictionary.\<close>

definition dict_get :: "py_dict \<Rightarrow> string \<Rightarrow> py_value \<Rightarrow> py_value" where
  "dict_get d k dflt = (case map_of d k of Some v \<Rightarrow> v | None \<Rightarrow> dflt)"

definition dict_item :: "py_dict \<Rightarrow> string \<Rightarrow> py_exn + py_value" where
  "dict_item d k = (case map_of d k of Some v \<Rightarrow> Inr v | None \<Rightarrow> Inl (KeyError k))"



text \<open>\<^verbatim>\<open>xs[n]\<close> for a literal index \<open>n \<ge> 0\<close>.\<close>

definition list_item :: "'a list \<Rightarrow> nat \<Rightarrow> py_exn + 'a" where
  "list_item xs n = (if n < length xs then Inr (xs ! n) else Inl IndexError)"

text \<open>\<^verbatim>\<open>Model(**x)\<close>: the object must be a mapping.\<close>

fun kwargs :: "py_value \<Rightarrow> py_exn + py_dict" where
  "kwargs (PyDict d) = Inr d"
| "kwargs v = Inl (NotAMapping v)"

section \<open>The simulated tool router client (\<^verbatim>\<open>src/tools/composio_client.py\<close>)\<close>

definition TOOL_SLUGS :: py_dict where
  "TOOL_SLUGS =
     [(''ARXIV_SEARCH'', PyStr ''arxiv_search_tool_slug''),
      (''PUBCHEM_QUERY'', PyStr ''pubchem_query_tool_slug''),
      (''NOTION_DRAFT'', PyStr ''notion_create_page_slug''),
      (''REMOTE_BASH'', PyStr ''COMPOSIO_REMOTE_BASH_TOOL''),
      (''MULTI_EXECUTE'', PyStr ''COMPOSIO_MULTI_EXECUTE_TOOL''),
      (''CREATE_PLAN'', PyStr ''COMPOSIO_CREATE_PLAN''),
      (''REMOTE_WORKBENCH'', PyStr ''COMPOSIO_REMOTE_WORKBENCH'')]"

definition workflow_steps :: "py_value \<Rightarrow> py_value \<Rightarrow> py_value list" where
  "workflow_steps t0 t1 =
     [PyStr (''1. Literature Review (Parallel search using '' @ py_str t0 @ '' and ''
               @ py_str t1 @ '')''),
      PyStr ''2. Store raw results in Remote Workbench.'',
      PyStr ''3. Execute Python Code (Remote Bash) for data cleaning and initial analysis.'',
      PyStr ''4. Draft Final Hypothesis and Protocol.'',
      PyStr ''5. Publish report to Notion/Docs.'']"

definition create_plan :: "py_runtime \<Rightarrow> string \<Rightarrow> py_value list \<Rightarrow> py_dict py" where
  "create_plan rt use_case primary_tool_slugs =
     py_bind (py_print (''-> Calling CREATE_PLAN for: '' @ use_case)) (\<lambda>_.
     py_bind (py_lift (list_item primary_tool_slugs 0)) (\<lambda>t0.
     py_bind (py_lift (list_item primary_tool_slugs 1)) (\<lambda>t1.
     py_return
       [(''successful'', PyBool True),
        (''complexity_assessment'',
           PyStr ''Hard (requires multi-agent collaboration and large file processing).''),
        (''workflow_steps'', PyList (workflow_steps t0 t1)),
        (''session_id'', PyStr (''sess-'' @ show_int (py_hash rt use_case))),
        (''reasoning'',
           PyStr ''The complexity requires orchestration across research tools and a custom execution environment.'')])))"

definition multi_execute_tool :: "py_value list \<Rightarrow> string \<Rightarrow> py_dict py" where
  "multi_execute_tool execution_requests session_id =
     py_bind (py_print (''-> Calling MULTI_EXECUTE_TOOL (Parallel execution count: ''
                          @ show_nat (length execution_requests) @ '')'')) (\<lambda>_.
     py_bind (py_lift (dict_item TOOL_SLUGS ''ARXIV_SEARCH'')) (\<lambda>arxiv.
     py_bind (py_lift (dict_item TOOL_SLUGS ''PUBCHEM_QUERY'')) (\<lambda>pubchem.
     py_return
       [(''successful'', PyBool True),
        (''results'', PyList
           [PyDict
              [(''tool_slug'', arxiv),
               (''output_summary'',
                  PyStr ''Found 5 highly relevant papers. Raw text stored in workbench.''),
               (''workbench_key'', PyStr ''ARXIV-RAW-DATA-KEY-123''),
               (''status'', PyStr ''completed'')],
            PyDict
              [(''tool_slug'', pubchem),
               (''output_summary'',
                  PyStr ''Retrieved 2 candidate chemical structures. Raw data stored in workbench.''),
               (''workbench_key'', PyStr ''PUBCHEM-RAW-DATA-KEY-456''),
               (''status'', PyStr ''completed'')]]),
        (''session_id'', PyStr session_id)])))"

definition workbench_failure :: py_dict where
  "workbench_failure = [(''successful'', PyBool False), (''error'', PyStr ''Invalid action or key.'')]"

definition known_keys :: "py_value list" where
  "known_keys = [PyStr ''ARXIV-RAW-DATA-KEY-123'', PyStr ''PUBCHEM-RAW-DATA-KEY-456'']"

text \<open>
  \<^verbatim>\<open>remote_workbench(action, key=None, data=None)\<close>. Nothing is kept between calls:
  \<^verbatim>\<open>store\<close> only names a key, \<^verbatim>\<open>retrieve\<close> answers for the two keys that
  \<^verbatim>\<open>multi_execute_tool\<close> hands out.
\<close>

definition remote_workbench :: "py_runtime \<Rightarrow> string \<Rightarrow> py_value \<Rightarrow> py_value \<Rightarrow> py_dict py" where
  "remote_workbench rt action key data =
     (if action = ''store'' then
        (let key' = (if truthy key then key
                     else PyStr (''workbench-data-'' @ show_int (py_hash rt (py_str data))))
         in py_bind (py_print (''-> Calling REMOTE_WORKBENCH: Stored large data under key: ''
                                 @ py_str key')) (\<lambda>_.
            py_return [(''successful'', PyBool True), (''workbench_key'', key')]))
      else if action = ''retrieve'' \<and> key \<in> set known_keys then
        py_bind (py_print (''-> Calling REMOTE_WORKBENCH: Retrieved complex data for key: ''
                             @ py_str key)) (\<lambda>_.
        py_return
          [(''successful'', PyBool True),
           (''data'', PyStr (''{... large, structured scientific data for '' @ py_str key @ '' ...}''))])
      else py_return workbench_failure)"

definition analysis_output :: py_value where
  "analysis_output =
     PyDict
       [(''final_clean_compounds'', PyInt 3),
        (''critical_risk_flag'', PyBool False),
        (''summary'',
           PyStr ''Data cleaning complete. Identified 3 high-potential compounds that passed initial risk filtering.'')]"

definition remote_bash_tool :: "string \<Rightarrow> py_dict py" where
  "remote_bash_tool script =
     py_bind (py_print ''-> Calling REMOTE_BASH_TOOL (Simulating Python/Pandas execution)'') (\<lambda>_.
     py_return
       [(''successful'', PyBool True),
        (''stdout'', PyStr (json_dumps analysis_output)),
        (''stderr'', PyStr []),
        (''execution_time_ms'', PyInt 450)])"

section \<open>The schema layer (\<^verbatim>\<open>src/models.py\<close>)\<close>

text \<open>
  \<^verbatim>\<open>ResearchQuery\<close> and \<^verbatim>\<open>FinalSynthesis\<close> declare fields of type \<^verbatim>\<open>str\<close> and
  \<^verbatim>\<open>List[str]\<close>, each required and none with a further constraint. Creating an instance
  checks every declared field, reports all the fields that are missing or of the wrong
  shape in one validation error, and ignores keys that are not declared. The third class,
  \<^verbatim>\<open>ToolExecutionRequest\<close>, is not used by the wrappers.
\<close>

record ResearchQuery =
  topic :: string
  target_output :: string
  "keywords" :: "string list"

record FinalSynthesis =
  hypothesis :: string
  protocol_summary :: string
  analysis_findings :: string
  prior_art_reference_links :: "string list"
  next_steps :: string

fun str_validator :: "py_runtime \<Rightarrow> py_value \<Rightarrow> string option" where
  "str_validator rt (PyStr s) = Some s"
| "str_validator rt (PyInt i) = (if lax_str rt then Some (show_int i) else None)"
| "str_validator rt (PyFloat r) = (if lax_str rt then Some r else None)"
| "str_validator rt (PyBool b) =
     (if lax_str rt then Some (if b then ''True'' else ''False'') else None)"
| "str_validator rt v = None"

fun list_str_validator :: "py_runtime \<Rightarrow> py_value \<Rightarrow> string list option" where
  "list_str_validator rt (PyList xs) = those (map (str_validator rt) xs)"
| "list_str_validator rt v = None"

definition str_field :: "py_runtime \<Rightarrow> py_dict \<Rightarrow> string \<Rightarrow> string option" where
  "str_field rt d name = (case map_of d name of None \<Rightarrow> None | Some v \<Rightarrow> str_validator rt v)"

definition list_str_field :: "py_runtime \<Rightarrow> py_dict \<Rightarrow> string \<Rightarrow> string list option" where
  "list_str_field rt d name =
     (case map_of d name of None \<Rightarrow> None | Some v \<Rightarrow> list_str_validator rt v)"

text \<open>The declared fields of each class, in the order of declaration, with their types.\<close>

datatype field_type = StrField | ListStrField

definition ResearchQuery_fields :: "(string \<times> field_type) list" where
  "ResearchQuery_fields =
     [(''topic'', StrField), (''target_output'', StrField), (''keywords'', ListStrField)]"

definition FinalSynthesis_fields :: "(string \<times> field_type) list" where
  "FinalSynthesis_fields =
     [(''hypothesis'', StrField), (''protocol_summary'', StrField),
      (''analysis_findings'', StrField), (''prior_art_reference_links'', ListStrField),
      (''next_steps'', StrField)]"

fun field_ok :: "py_runtime \<Rightarrow> py_dict \<Rightarrow> string \<times> field_type \<Rightarrow> bool" where
  "field_ok rt d (name, StrField) = (str_field rt d name \<noteq> None)"
| "field_ok rt d (name, ListStrField) = (list_str_field rt d name \<noteq> None)"

text \<open>The fields a validation error reports: the declared ones that are missing or ill-typed.\<close>

definition field_errors :: "py_runtime \<Rightarrow> (string \<times> field_type) list \<Rightarrow> py_dict \<Rightarrow> string list" where
  "field_errors rt fs d = map fst (filter (\<lambda>f. \<not> field_ok rt d f) fs)"

definition validate_ResearchQuery :: "py_runtime \<Rightarrow> py_dict \<Rightarrow> py_exn + ResearchQuery" where
  "validate_ResearchQuery rt d =
     (case (str_field rt d ''topic'', str_field rt d ''target_output'',
            list_str_field rt d ''keywords'') of
        (Some t, Some out, Some ks) \<Rightarrow> Inr \<lparr>topic = t, target_output = out, keywords = ks\<rparr>
      | _ \<Rightarrow> Inl (ValidationError (field_errors rt ResearchQuery_fields d)))"

definition validate_FinalSynthesis :: "py_runtime \<Rightarrow> py_dict \<Rightarrow> py_exn + FinalSynthesis" where
  "validate_FinalSynthesis rt d =
     (case (str_field rt d ''hypothesis'', str_field rt d ''protocol_summary'',
            str_field rt d ''analysis_findings'',
            list_str_field rt d ''prior_art_reference_links'',
            str_field rt d ''next_steps'') of
        (Some h, Some p, Some a, Some l, Some n) \<Rightarrow>
          Inr \<lparr>hypothesis = h, protocol_summary = p, analysis_findings = a,
               prior_art_reference_links = l, next_steps = n\<rparr>
      | _ \<Rightarrow> Inl (ValidationError (field_errors rt FinalSynthesis_fields d)))"

section \<open>The tool wrappers (\<^verbatim>\<open>src/tools/custom_tools.py\<close>)\<close>

definition loads :: "py_runtime \<Rightarrow> string \<Rightarrow> py_value py" where
  "loads rt text =
     py_lift (case json_loads rt text of None \<Rightarrow> Inl JSONDecodeError | Some v \<Rightarrow> Inr v)"

subsection \<open>Tool 1: the plan wrapper\<close>

definition use_case_text :: "string \<Rightarrow> string" where
  "use_case_text t = ''Generate a novel hypothesis and experimental protocol for the topic: '' @ t"

definition create_workflow_plan_try :: "py_runtime \<Rightarrow> string \<Rightarrow> string py" where
  "create_workflow_plan_try rt query_json =
     py_bind (loads rt query_json) (\<lambda>v.
     py_bind (py_lift (kwargs v)) (\<lambda>d.
     py_bind (py_lift (validate_ResearchQuery rt d)) (\<lambda>query.
     py_bind (py_lift (dict_item TOOL_SLUGS ''ARXIV_SEARCH'')) (\<lambda>arxiv.
     py_bind (py_lift (dict_item TOOL_SLUGS ''PUBCHEM_QUERY'')) (\<lambda>pubchem.
     py_bind (create_plan rt (use_case_text (topic query)) [arxiv, pubchem]) (\<lambda>plan_result.
     if truthy (dict_get plan_result ''successful'' PyNone) then
       py_bind (py_lift (dict_item plan_result ''session_id'')) (\<lambda>sid.
       py_bind (py_lift (dict_item plan_result ''workflow_steps'')) (\<lambda>steps.
       py_return (''Plan successful. Session ID: '' @ py_str sid @ ''. Workflow steps: ''
                    @ py_str steps @ ''.'')))
     else
       py_return (''Error generating plan: ''
                    @ py_str (dict_get plan_result ''reasoning'' (PyStr ''Unknown Error'')))))))))"

definition create_workflow_plan :: "py_runtime \<Rightarrow> string \<Rightarrow> string py" where
  "create_workflow_plan rt query_json =
     py_try (create_workflow_plan_try rt query_json) (\<lambda>e.
       if e = JSONDecodeError then
         py_return ''CRITICAL TOOL ERROR: Input was not valid JSON. You must pass a JSON string conforming to ResearchQuery.''
       else
         py_return (''CRITICAL TOOL ERROR: Failed to call Composio CREATE_PLAN. Error: ''
                      @ exn_text rt e))"

subsection \<open>Tool 2: the parallel research wrapper\<close>




subsection \<open>Tool 3: the remote analysis wrapper\<close>

definition analysis_prefix :: string where
  "analysis_prefix = ''Analysis complete. Raw analysis output (stdout JSON): ''"

definition run_data_analysis_try :: "py_runtime \<Rightarrow> string \<Rightarrow> string py" where
  "run_data_analysis_try rt workbench_keys_json =
     py_bind (loads rt workbench_keys_json) (\<lambda>workbench_keys.
     py_bind (py_lift (py_iter workbench_keys)) (\<lambda>keys.
     py_bind (py_for (\<lambda>key. remote_workbench rt ''retrieve'' key PyNone) keys) (\<lambda>_.
     py_bind (remote_bash_tool (''analyze_data_from_workbench(keys='' @ py_str workbench_keys
                                  @ '')'')) (\<lambda>bash_result.
     if truthy (dict_get bash_result ''successful'' PyNone) then
       py_bind (py_lift (dict_item bash_result ''stdout'')) (\<lambda>stdout.
       py_return (analysis_prefix @ py_str stdout))
     else
       py_return (''Error during Remote Bash execution: ''
                    @ py_str (dict_get bash_result ''stderr'' (PyStr ''Unknown Error'')))))))"

definition run_data_analysis :: "py_runtime \<Rightarrow> string \<Rightarrow> string py" where
  "run_data_analysis rt workbench_keys_json =
     py_try (run_data_analysis_try rt workbench_keys_json) (\<lambda>e.
       if e = JSONDecodeError then
         py_return (''JSON Error: The '' @ [squote] @ ''workbench_keys_json'' @ [squote]
                      @ '' input was not valid JSON.'')
       else
         py_return (''CRITICAL TOOL ERROR: Failed to run data analysis. Error: ''
                      @ exn_text rt e))"

subsection \<open>Tool 4: the publish wrapper\<close>

definition publish_failure_prefix :: string where
  "publish_failure_prefix = ''CRITICAL TOOL ERROR: Failed to publish report. Error: ''"

definition publish_final_report_try :: "py_runtime \<Rightarrow> string \<Rightarrow> string py" where
  "publish_final_report_try rt final_synthesis_json =
     py_bind (loads rt final_synthesis_json) (\<lambda>v.
     py_bind (py_lift (kwargs v)) (\<lambda>d.
     py_bind (py_lift (validate_FinalSynthesis rt d)) (\<lambda>synthesis_data.
     py_bind (py_print (''-> Calling Composio Notion Tool: Creating page '' @ [squote]
                          @ hypothesis synthesis_data @ [squote])) (\<lambda>_.
     py_return (''Final Synthesis published successfully. Report URL: ''
                  @ ''https://notion.com/reports/''
                  @ show_int (py_hash rt (hypothesis synthesis_data)) @ ''.'')))))"

definition publish_final_report :: "py_runtime \<Rightarrow> string \<Rightarrow> string py" where
  "publish_final_report rt final_synthesis_json =
     py_try (publish_final_report_try rt final_synthesis_json) (\<lambda>e.
       if e = JSONDecodeError then
         py_return (''JSON Error: The '' @ [squote] @ ''final_synthesis_json'' @ [squote]
                      @ '' input was not valid JSON. Ensure all fields in FinalSynthesis are present.'')
       else
         py_return (publish_failure_prefix @ exn_text rt e))"

section \<open>A sample runtime\<close>

text \<open>
  The examples below run the wrappers in a runtime whose parser is tabulated on the JSON
  texts of a few documents (each text is the \<^verbatim>\<open>json.dumps\<close> of its document, which
  \<^verbatim>\<open>json.loads\<close> reads back) and rejects the text \<^verbatim>\<open>not json\<close>. Its hash and its
  exception texts are stand-ins for the ones of a Python process, and its pydantic does
  not turn numbers into strings.
\<close>

definition sample_query :: py_dict where
  "sample_query =
     [(''topic'', PyStr ''graphene quantum dots for drug delivery''),
        (''target_output'', PyStr ''Draft full experimental protocol''),
        (''keywords'', PyList [PyStr ''graphene'', PyStr ''delivery''])]"

definition sample_query_other :: py_dict where
  "sample_query_other =
     [(''topic'', PyStr ''graphene quantum dots for drug delivery''),
        (''target_output'', PyStr ''Prior art matrix''),
        (''keywords'', PyList [PyStr ''nanomedicine''])]"

definition sample_query_no_keywords :: py_dict where
  "sample_query_no_keywords =
     [(''topic'', PyStr ''graphene quantum dots for drug delivery''),
        (''target_output'', PyStr ''Draft full experimental protocol''),
        (''keywords'', PyList [])]"

definition sample_synthesis :: py_dict where
  "sample_synthesis =
     [(''hypothesis'', PyStr ''Dots deliver drugs''),
        (''protocol_summary'', PyStr ''In-vitro assay''),
        (''analysis_findings'', PyStr ''3 compounds passed''),
        (''prior_art_reference_links'', PyList []),
        (''next_steps'', PyStr ''In-vitro testing'')]"

definition sample_synthesis_null :: py_dict where
  "sample_synthesis_null =
     [(''hypothesis'', PyNone),
        (''protocol_summary'', PyStr ''In-vitro assay''),
        (''analysis_findings'', PyStr ''3 compounds passed''),
        (''prior_art_reference_links'', PyList []),
        (''next_steps'', PyStr ''In-vitro testing'')]"

definition sample_synthesis_missing :: py_dict where
  "sample_synthesis_missing =
     [(''hypothesis'', PyStr ''Dots deliver drugs''),
        (''protocol_summary'', PyStr ''In-vitro assay''),
        (''analysis_findings'', PyStr ''3 compounds passed''),
        (''prior_art_reference_links'', PyList [])]"

definition sample_keys :: py_value where
  "sample_keys =
     PyList [PyStr ''ARXIV-RAW-DATA-KEY-123'', PyStr ''no-such-key'',
             PyStr ''PUBCHEM-RAW-DATA-KEY-456'']"

definition sample_documents :: "py_value list" where
  "sample_documents =
     [PyDict sample_query, PyDict sample_query_other, PyDict sample_query_no_keywords,
      PyDict sample_synthesis, PyDict sample_synthesis_null, PyDict sample_synthesis_missing,
      sample_keys, PyList []]"

definition sample_loads :: "string \<Rightarrow> py_value option" where
  "sample_loads text = map_of (map (\<lambda>v. (json_dumps v, v)) sample_documents) text"

definition sample_hash :: "string \<Rightarrow> int" where
  "sample_hash s = int (length s) - 100"

fun sample_exn_text :: "py_exn \<Rightarrow> string" where
  "sample_exn_text (ValidationError names) = ''validation errors for: '' @ join '', '' names"
| "sample_exn_text e = ''error''"

definition sample_rt :: py_runtime where
  "sample_rt =
     \<lparr>json_loads = sample_loads, py_hash = sample_hash, exn_text = sample_exn_text,
      lax_str = False\<rparr>"

text \<open>The result slots of a batch result, as a caller reads them.\<close>

definition results_of :: "py_dict py \<Rightarrow> py_value list" where
  "results_of r =
     (case snd r of
        Inr d \<Rightarrow> (case dict_get d ''results'' PyNone of PyList rs \<Rightarrow> rs | _ \<Rightarrow> [])
      | Inl e \<Rightarrow> [])"

section \<open>Properties\<close>

lemmas py_defs = py_bind_def py_return_def py_lift_def py_print_def py_try_def

subsection \<open>Decimal texts determine their numbers\<close>

lemma digit_char_code:
  assumes "d < 10"
  shows "(of_char (digit_char d) :: nat) = 48 + d"
proof -
  from assms have "d \<in> {0, 1, 2, 3, 4, 5, 6, 7, 8, 9}"
    by auto
  then show ?thesis
    by (elim insertE emptyE) (simp_all add: digit_char_def)
qed

lemma digit_char_inj:
  assumes "d < 10" and "e < 10" and eq: "digit_char d = digit_char e"
  shows "d = e"
proof -
  have "(48 + d :: nat) = of_char (digit_char d)"
    using assms(1) by (rule digit_char_code [symmetric])
  also have "\<dots> = of_char (digit_char e)"
    by (simp only: eq)
  also have "\<dots> = 48 + e"
    using assms(2) by (rule digit_char_code)
  finally show ?thesis
    by (simp only: add_left_cancel)
qed

lemma digit_char_not_minus:
  assumes "d < 10"
  shows "digit_char d \<noteq> CHR ''-''"
proof
  assume "digit_char d = CHR ''-''"
  then have "(of_char (digit_char d) :: nat) = of_char (CHR ''-'')"
    by (simp only:)
  then have "48 + d = (45 :: nat)"
    by (simp add: digit_char_code [OF assms])
  then show False
    by simp
qed

lemma show_nat_not_empty: "show_nat n \<noteq> []"
  by (subst show_nat.simps) simp

lemma show_nat_no_minus: "CHR ''-'' \<notin> set (show_nat n)"
proof (induction n rule: show_nat.induct)
  case (1 n)
  show ?case
  proof (cases "n < 10")
    case True
    then show ?thesis
      using digit_char_not_minus [of n] by (subst show_nat.simps) auto
  next
    case False
    then show ?thesis
      using 1 digit_char_not_minus [of "n mod 10"] by (subst show_nat.simps) auto
  qed
qed

lemma show_nat_inj: "show_nat m = show_nat n \<Longrightarrow> m = n"
proof (induction m arbitrary: n rule: show_nat.induct)
  case (1 m)
  show ?case
  proof (cases "m < 10")
    case m: True
    show ?thesis
    proof (cases "n < 10")
      case True
      with m "1.prems" show ?thesis
        by (simp add: show_nat.simps [of m] show_nat.simps [of n] digit_char_inj)
    next
      case False
      with m "1.prems" show_nat_not_empty [of "n div 10"] show ?thesis
        by (simp add: show_nat.simps [of m] show_nat.simps [of n])
    qed
  next
    case m: False
    show ?thesis
    proof (cases "n < 10")
      case True
      with m "1.prems" show_nat_not_empty [of "m div 10"] show ?thesis
        by (simp add: show_nat.simps [of m] show_nat.simps [of n])
    next
      case False
      with m "1.prems" have eq: "show_nat (m div 10) = show_nat (n div 10)"
        and d: "digit_char (m mod 10) = digit_char (n mod 10)"
        by (simp_all add: show_nat.simps [of m] show_nat.simps [of n])
      from "1.IH" [OF m eq] have "m div 10 = n div 10" .
      moreover from d have "m mod 10 = n mod 10"
        by (rule digit_char_inj [rotated 2]) simp_all
      ultimately show ?thesis
        by (metis div_mult_mod_eq)
    qed
  qed
qed

lemma show_int_inj: "show_int i = show_int j \<Longrightarrow> i = j"
proof -
  assume eq: "show_int i = show_int j"
  have hd: "\<And>n r. show_nat n \<noteq> CHR ''-'' # r"
    using show_nat_no_minus by (metis list.set_intros(1))
  show ?thesis
  proof (cases "i < 0")
    case i: True
    show ?thesis
    proof (cases "j < 0")
      case True
      with i eq have "nat (- i) = nat (- j)"
        by (simp add: show_int_def show_nat_inj)
      with i True show ?thesis by simp
    next
      case False
      with i eq hd show ?thesis by (simp add: show_int_def) metis
    qed
  next
    case i: False
    show ?thesis
    proof (cases "j < 0")
      case True
      with i eq hd show ?thesis by (simp add: show_int_def)
    next
      case False
      with i eq have "nat i = nat j"
        by (simp add: show_int_def show_nat_inj)
      with i False show ?thesis by simp
    qed
  qed
qed

subsection \<open>The workbench\<close>

text \<open>
  Claim C9. For every action other than \<^verbatim>\<open>store\<close> and \<^verbatim>\<open>retrieve\<close>, and for every
  \<^verbatim>\<open>retrieve\<close> whose key is not one of the keys the workbench holds data for, the
  workbench operation prints nothing, raises nothing and returns the structured failure
  with \<^verbatim>\<open>successful\<close> false and the error text \<^verbatim>\<open>Invalid action or key.\<close>
\<close>

theorem remote_workbench_rejects:
  assumes "action \<noteq> ''store''"
      and "action = ''retrieve'' \<longrightarrow> key \<notin> set known_keys"
  shows "remote_workbench rt action key data =
           ([], Inr [(''successful'', PyBool False), (''error'', PyStr ''Invalid action or key.'')])"
  using assms by (simp add: remote_workbench_def workbench_failure_def py_defs)

theorem remote_workbench_rejects_witness:
  "''retrieve'' \<noteq> ''store'' \<and> PyStr ''no-such-key'' \<notin> set known_keys \<and>
   remote_workbench sample_rt ''retrieve'' (PyStr ''no-such-key'') PyNone =
     ([], Inr [(''successful'', PyBool False), (''error'', PyStr ''Invalid action or key.'')])"
  using remote_workbench_rejects [of "''retrieve''" "PyStr ''no-such-key''" sample_rt PyNone]
  by (simp add: known_keys_def)

text \<open>
  Claim C2, as amended. The workbench keeps nothing. A \<^verbatim>\<open>store\<close> of a value \<open>v\<close> with
  no key succeeds and returns the key \<^verbatim>\<open>workbench-data-\<close> followed by the hash of
  \<^verbatim>\<open>str(v)\<close>; a \<^verbatim>\<open>retrieve\<close> with that key returns the structured failure, not \<open>v\<close>.
  A \<^verbatim>\<open>retrieve\<close> succeeds exactly for the two built-in keys, stored or not, with a
  placeholder text that names the key; for every other key it returns the structured
  failure and raises nothing.
\<close>

theorem workbench_store_then_retrieve:
  "remote_workbench rt ''store'' PyNone v =
     ([''-> Calling REMOTE_WORKBENCH: Stored large data under key: workbench-data-''
         @ show_int (py_hash rt (py_str v))],
      Inr [(''successful'', PyBool True),
           (''workbench_key'', PyStr (''workbench-data-'' @ show_int (py_hash rt (py_str v))))]) \<and>
   remote_workbench rt ''retrieve'' (PyStr (''workbench-data-'' @ show_int (py_hash rt (py_str v)))) PyNone =
     ([], Inr [(''successful'', PyBool False), (''error'', PyStr ''Invalid action or key.'')]) \<and>
   remote_workbench rt ''retrieve'' key PyNone =
     (if key \<in> set known_keys
      then ([''-> Calling REMOTE_WORKBENCH: Retrieved complex data for key: '' @ py_str key],
            Inr [(''successful'', PyBool True),
                 (''data'', PyStr (''{... large, structured scientific data for '' @ py_str key @ '' ...}''))])
      else ([], Inr [(''successful'', PyBool False), (''error'', PyStr ''Invalid action or key.'')]))"
  by (simp add: remote_workbench_def workbench_failure_def py_defs known_keys_def)

text \<open>
  The round trip fails at the value \<^verbatim>\<open>payload\<close>: the key its \<^verbatim>\<open>store\<close> returns is
  unknown to \<^verbatim>\<open>retrieve\<close>, while a key that was never stored is answered.
\<close>

theorem workbench_round_trip_counterexample:
  "snd (remote_workbench sample_rt ''store'' PyNone (PyStr ''payload'')) =
     Inr [(''successful'', PyBool True), (''workbench_key'', PyStr ''workbench-data--93'')] \<and>
   snd (remote_workbench sample_rt ''retrieve'' (PyStr ''workbench-data--93'') PyNone) =
     Inr [(''successful'', PyBool False), (''error'', PyStr ''Invalid action or key.'')] \<and>
   snd (remote_workbench sample_rt ''retrieve'' (PyStr ''ARXIV-RAW-DATA-KEY-123'') PyNone) =
     Inr [(''successful'', PyBool True),
          (''data'', PyStr ''{... large, structured scientific data for ARXIV-RAW-DATA-KEY-123 ...}'')]"
  by (simp add: remote_workbench_def workbench_failure_def py_defs known_keys_def sample_rt_def
      sample_hash_def show_int_def show_nat.simps digit_char_def)

text \<open>
  Claim C7, as amended. The key of a \<^verbatim>\<open>store\<close> with no key is computed from the value
  alone: two such stores return the same result, hence the same key, exactly when the
  hashes of the texts \<^verbatim>\<open>str(v)\<close> of their values are equal. Storing one value twice, or
  two values with the same text, returns one key twice.
\<close>

theorem keyless_store_keys_collide_iff:
  "snd (remote_workbench rt ''store'' PyNone v) = snd (remote_workbench rt ''store'' PyNone w)
     \<longleftrightarrow> py_hash rt (py_str v) = py_hash rt (py_str w)"
  by (auto simp: remote_workbench_def py_defs dest: show_int_inj)

text \<open>The integer \<^verbatim>\<open>1\<close> and the text \<^verbatim>\<open>1\<close> differ, and their stores return the same key.\<close>

theorem keyless_store_keys_counterexample:
  "PyInt 1 \<noteq> PyStr ''1'' \<and>
   snd (remote_workbench sample_rt ''store'' PyNone (PyInt 1)) =
   snd (remote_workbench sample_rt ''store'' PyNone (PyStr ''1''))"
  by (simp add: remote_workbench_def py_defs show_int_def show_nat.simps digit_char_def)

subsection \<open>The batch execution\<close>

lemma slug_items:
  "dict_item TOOL_SLUGS ''ARXIV_SEARCH'' = Inr (PyStr ''arxiv_search_tool_slug'')"
  "dict_item TOOL_SLUGS ''PUBCHEM_QUERY'' = Inr (PyStr ''pubchem_query_tool_slug'')"
  by (simp_all add: dict_item_def TOOL_SLUGS_def)

text \<open>
  Claim C1, as amended. Whatever the list of requests and the session id,
  \<^verbatim>\<open>multi_execute_tool\<close> succeeds with exactly two result slots, the literature search
  first and the compound query second, both completed, and echoes the session id; the
  requests only set the count it prints. The slots match the requests in number and
  position only for a batch of these two requests in this order.
\<close>

theorem multi_execute_tool_fixed_slots:
  "multi_execute_tool reqs sid =
     ([''-> Calling MULTI_EXECUTE_TOOL (Parallel execution count: '' @ show_nat (length reqs) @ '')''],
      Inr [(''successful'', PyBool True),
           (''results'', PyList
              [PyDict
                 [(''tool_slug'', PyStr ''arxiv_search_tool_slug''),
                  (''output_summary'', PyStr ''Found 5 highly relevant papers. Raw text stored in workbench.''),
                  (''workbench_key'', PyStr ''ARXIV-RAW-DATA-KEY-123''),
                  (''status'', PyStr ''completed'')],
               PyDict
                 [(''tool_slug'', PyStr ''pubchem_query_tool_slug''),
                  (''output_summary'', PyStr ''Retrieved 2 candidate chemical structures. Raw data stored in workbench.''),
                  (''workbench_key'', PyStr ''PUBCHEM-RAW-DATA-KEY-456''),
                  (''status'', PyStr ''completed'')]]),
           (''session_id'', PyStr sid)]) \<and>
   length (results_of (multi_execute_tool reqs sid)) = 2"
  by (simp add: multi_execute_tool_def results_of_def dict_get_def slug_items py_defs)

text \<open>A batch of no requests comes back with two result slots.\<close>

theorem multi_execute_tool_counterexample:
  "length (results_of (multi_execute_tool [] ''sess-1'')) \<noteq> length ([] :: py_value list)"
  by (simp add: multi_execute_tool_def results_of_def dict_get_def slug_items py_defs)

subsection \<open>Malformed input\<close>

lemma contains_here: "contains needle (needle @ rest)"
proof (cases "needle @ rest")
  case Nil
  then show ?thesis by simp
next
  case (Cons c cs)
  have "take (length needle) (needle @ rest) = needle" by simp
  with Cons show ?thesis by simp
qed

lemma contains_append: "contains needle (before @ needle @ rest)"
  by (induction before) (auto simp: contains_here)


lemma loads_Some: "json_loads rt text = Some v \<Longrightarrow> loads rt text = ([], Inr v)"
  by (simp add: loads_def py_defs)




subsection \<open>The plan wrapper\<close>

lemma dict_item_Cons:
  "dict_item ((k, v) # d) name = (if k = name then Inr v else dict_item d name)"
  by (simp add: dict_item_def)

lemma dict_get_Cons:
  "dict_get ((k, v) # d) name dflt = (if k = name then v else dict_get d name dflt)"
  by (simp add: dict_get_def)

lemma those_str_validator: "those (map (str_validator rt \<circ> PyStr) ws) = Some ws"
  by (induction ws) simp_all

lemma list_str_field_strings:
  "map_of d name = Some (PyList (map PyStr ws)) \<Longrightarrow> list_str_field rt d name = Some ws"
  by (simp add: list_str_field_def those_str_validator)

lemma str_field_string: "map_of d name = Some (PyStr s) \<Longrightarrow> str_field rt d name = Some s"
  by (simp add: str_field_def)

lemma validate_ResearchQuery_strings:
  assumes "map_of d ''topic'' = Some (PyStr t)"
      and "map_of d ''target_output'' = Some (PyStr out)"
      and "map_of d ''keywords'' = Some (PyList (map PyStr ws))"
  shows "validate_ResearchQuery rt d = Inr \<lparr>topic = t, target_output = out, keywords = ws\<rparr>"
  by (simp add: validate_ResearchQuery_def str_field_string [OF assms(1)]
      str_field_string [OF assms(2)] list_str_field_strings [OF assms(3)])

lemma create_plan_two:
  "create_plan rt use_case [a, b] =
     ([''-> Calling CREATE_PLAN for: '' @ use_case],
      Inr [(''successful'', PyBool True),
           (''complexity_assessment'',
              PyStr ''Hard (requires multi-agent collaboration and large file processing).''),
           (''workflow_steps'', PyList (workflow_steps a b)),
           (''session_id'', PyStr (''sess-'' @ show_int (py_hash rt use_case))),
           (''reasoning'',
              PyStr ''The complexity requires orchestration across research tools and a custom execution environment.'')])"
  by (simp add: create_plan_def list_item_def py_defs)

lemma plan_wrapper_result:
  assumes "json_loads rt text = Some (PyDict d)"
      and "validate_ResearchQuery rt d = Inr query"
  shows "create_workflow_plan rt text =
           ([''-> Calling CREATE_PLAN for: '' @ use_case_text (topic query)],
            Inr (''Plan successful. Session ID: sess-''
                   @ show_int (py_hash rt (use_case_text (topic query)))
                   @ ''. Workflow steps: ''
                   @ py_repr (PyList (workflow_steps (PyStr ''arxiv_search_tool_slug'')
                                        (PyStr ''pubchem_query_tool_slug'')))
                   @ ''.''))"
  by (simp add: create_workflow_plan_def create_workflow_plan_try_def loads_Some [OF assms(1)]
      assms(2) slug_items create_plan_two dict_get_Cons dict_item_Cons py_defs
      del: py_repr.simps)

lemma sample_reads_query:
  "json_loads sample_rt (json_dumps (PyDict sample_query)) = Some (PyDict sample_query)"
  by code_simp

lemma sample_reads_query_other:
  "json_loads sample_rt (json_dumps (PyDict sample_query_other)) = Some (PyDict sample_query_other)"
  by code_simp

lemma sample_reads_query_no_keywords:
  "json_loads sample_rt (json_dumps (PyDict sample_query_no_keywords)) =
     Some (PyDict sample_query_no_keywords)"
  by code_simp

lemma sample_session:
  "show_int (py_hash sample_rt (use_case_text ''graphene quantum dots for drug delivery'')) = ''8''"
  by code_simp

lemma plan_steps_text:
  "py_repr (PyList (workflow_steps (PyStr ''arxiv_search_tool_slug'') (PyStr ''pubchem_query_tool_slug''))) =
     (''['' @ [squote])
     @ ''1. Literature Review (Parallel search using arxiv_search_tool_slug and pubchem_query_tool_slug)''
     @ ([squote] @ '', '' @ [squote] @ ''2. Store raw results in Remote Workbench.'' @ [squote]
        @ '', '' @ [squote]
        @ ''3. Execute Python Code (Remote Bash) for data cleaning and initial analysis.''
        @ [squote] @ '', '' @ [squote] @ ''4. Draft Final Hypothesis and Protocol.'' @ [squote]
        @ '', '' @ [squote] @ ''5. Publish report to Notion/Docs.'' @ [squote] @ '']'')"
  by code_simp

text \<open>
  Claim C5. For every valid ResearchQuery input (an object whose \<^verbatim>\<open>topic\<close> and
  \<^verbatim>\<open>target_output\<close> are strings and whose \<^verbatim>\<open>keywords\<close> is a non-empty list of
  strings), the text the plan wrapper returns is \<^verbatim>\<open>Plan successful.\<close> followed by the
  session id, which is \<^verbatim>\<open>sess-\<close> and the hash of the use case and so is not empty, and
  by the list of the five workflow steps; the text contains the session id and the first
  step.
\<close>

theorem plan_wrapper_valid_query:
  assumes "json_loads rt text = Some (PyDict d)"
      and "map_of d ''topic'' = Some (PyStr t)"
      and "map_of d ''target_output'' = Some (PyStr out)"
      and "map_of d ''keywords'' = Some (PyList (map PyStr ws))"
      and "ws \<noteq> []"
  shows "\<exists>m. snd (create_workflow_plan rt text) = Inr m \<and>
           m = ''Plan successful. Session ID: ''
                 @ (''sess-'' @ show_int (py_hash rt (use_case_text t)))
                 @ ''. Workflow steps: ''
                 @ py_repr (PyList (workflow_steps (PyStr ''arxiv_search_tool_slug'')
                                      (PyStr ''pubchem_query_tool_slug'')))
                 @ ''.'' \<and>
           ''sess-'' @ show_int (py_hash rt (use_case_text t)) \<noteq> [] \<and>
           contains (''sess-'' @ show_int (py_hash rt (use_case_text t))) m \<and>
           length (workflow_steps (PyStr ''arxiv_search_tool_slug'')
                     (PyStr ''pubchem_query_tool_slug'')) = 5 \<and>
           contains ''1. Literature Review (Parallel search using arxiv_search_tool_slug and pubchem_query_tool_slug)'' m"
proof -
  define sid where "sid = ''sess-'' @ show_int (py_hash rt (use_case_text t))"
  define steps where "steps = py_repr (PyList (workflow_steps (PyStr ''arxiv_search_tool_slug'')
                                      (PyStr ''pubchem_query_tool_slug'')))"
  define m where "m = ''Plan successful. Session ID: '' @ sid @ ''. Workflow steps: '' @ steps @ ''.''"
  note v = validate_ResearchQuery_strings [OF assms(2,3,4), of rt]
  have 1: "snd (create_workflow_plan rt text) = Inr m"
    unfolding m_def sid_def steps_def
    by (simp add: plan_wrapper_result [OF assms(1) v] del: py_repr.simps)
  have 2: "sid \<noteq> []"
    by (simp add: sid_def)
  have 3: "contains sid m"
    unfolding m_def by (rule contains_append)
  have 4: "length (workflow_steps (PyStr ''arxiv_search_tool_slug'') (PyStr ''pubchem_query_tool_slug'')) = 5"
    by (simp add: workflow_steps_def)
  have "m = (''Plan successful. Session ID: '' @ sid @ ''. Workflow steps: '' @ ''['' @ [squote])
     @ ''1. Literature Review (Parallel search using arxiv_search_tool_slug and pubchem_query_tool_slug)''
     @ ([squote] @ '', '' @ [squote] @ ''2. Store raw results in Remote Workbench.'' @ [squote]
        @ '', '' @ [squote]
        @ ''3. Execute Python Code (Remote Bash) for data cleaning and initial analysis.''
        @ [squote] @ '', '' @ [squote] @ ''4. Draft Final Hypothesis and Protocol.'' @ [squote]
        @ '', '' @ [squote] @ ''5. Publish report to Notion/Docs.'' @ [squote] @ '']'' @ ''.'')"
    unfolding m_def steps_def plan_steps_text by (simp only: append_assoc)
  then have 5: "contains ''1. Literature Review (Parallel search using arxiv_search_tool_slug and pubchem_query_tool_slug)'' m"
    by (simp only: contains_append)
  from 1 2 3 4 5 show ?thesis
    unfolding m_def sid_def steps_def by blast
qed

theorem plan_wrapper_valid_query_witness:
  "json_loads sample_rt (json_dumps (PyDict sample_query)) = Some (PyDict sample_query) \<and>
   map_of sample_query ''topic'' = Some (PyStr ''graphene quantum dots for drug delivery'') \<and>
   map_of sample_query ''target_output'' = Some (PyStr ''Draft full experimental protocol'') \<and>
   map_of sample_query ''keywords'' = Some (PyList (map PyStr [''graphene'', ''delivery''])) \<and>
   [''graphene'', ''delivery''] \<noteq> [] \<and>
   snd (create_workflow_plan sample_rt (json_dumps (PyDict sample_query))) =
     Inr (''Plan successful. Session ID: sess-8. Workflow steps: ''
            @ py_repr (PyList (workflow_steps (PyStr ''arxiv_search_tool_slug'')
                                 (PyStr ''pubchem_query_tool_slug'')))
            @ ''.'')"
proof -
  have t: "map_of sample_query ''topic'' = Some (PyStr ''graphene quantum dots for drug delivery'')"
    by (simp add: sample_query_def)
  have out: "map_of sample_query ''target_output'' = Some (PyStr ''Draft full experimental protocol'')"
    by (simp add: sample_query_def)
  have ks: "map_of sample_query ''keywords'' = Some (PyList (map PyStr [''graphene'', ''delivery'']))"
    by (simp add: sample_query_def)
  have ne: "[''graphene'', ''delivery''] \<noteq> []"
    by simp
  from plan_wrapper_valid_query [OF sample_reads_query t out ks ne]
  obtain m where
    "snd (create_workflow_plan sample_rt (json_dumps (PyDict sample_query))) = Inr m"
    "m = ''Plan successful. Session ID: ''
           @ (''sess-'' @ show_int (py_hash sample_rt
                 (use_case_text ''graphene quantum dots for drug delivery'')))
           @ ''. Workflow steps: ''
           @ py_repr (PyList (workflow_steps (PyStr ''arxiv_search_tool_slug'')
                                (PyStr ''pubchem_query_tool_slug'')))
           @ ''.''"
    by blast
  then have "snd (create_workflow_plan sample_rt (json_dumps (PyDict sample_query))) =
     Inr (''Plan successful. Session ID: sess-8. Workflow steps: ''
            @ py_repr (PyList (workflow_steps (PyStr ''arxiv_search_tool_slug'')
                                 (PyStr ''pubchem_query_tool_slug'')))
            @ ''.'')"
    by (simp add: sample_session del: py_repr.simps json_dumps.simps)
  with sample_reads_query t out ks ne show ?thesis
    by (simp only: simp_thms)
qed

text \<open>
  Claim C10. Two valid ResearchQuery inputs with the same topic, whatever their
  \<^verbatim>\<open>target_output\<close> and \<^verbatim>\<open>keywords\<close>, make the plan wrapper print the same line and
  return the same text: the plan depends on the topic only.
\<close>

theorem plan_wrapper_depends_on_topic_only:
  assumes "json_loads rt text1 = Some (PyDict d1)"
      and "map_of d1 ''topic'' = Some (PyStr t)"
      and "map_of d1 ''target_output'' = Some (PyStr out1)"
      and "map_of d1 ''keywords'' = Some (PyList (map PyStr ws1))"
      and "json_loads rt text2 = Some (PyDict d2)"
      and "map_of d2 ''topic'' = Some (PyStr t)"
      and "map_of d2 ''target_output'' = Some (PyStr out2)"
      and "map_of d2 ''keywords'' = Some (PyList (map PyStr ws2))"
  shows "create_workflow_plan rt text1 = create_workflow_plan rt text2"
proof -
  note v1 = validate_ResearchQuery_strings [OF assms(2,3,4), of rt]
  note v2 = validate_ResearchQuery_strings [OF assms(6,7,8), of rt]
  show ?thesis
    by (simp only: plan_wrapper_result [OF assms(1) v1] plan_wrapper_result [OF assms(5) v2]
        ResearchQuery.simps)
qed

theorem plan_wrapper_depends_on_topic_only_witness:
  "PyDict sample_query \<noteq> PyDict sample_query_other \<and>
   create_workflow_plan sample_rt (json_dumps (PyDict sample_query)) =
   create_workflow_plan sample_rt (json_dumps (PyDict sample_query_other))"
proof -
  have t: "map_of sample_query ''topic'' = Some (PyStr ''graphene quantum dots for drug delivery'')"
    by (simp add: sample_query_def)
  have out: "map_of sample_query ''target_output'' = Some (PyStr ''Draft full experimental protocol'')"
    by (simp add: sample_query_def)
  have ks: "map_of sample_query ''keywords'' = Some (PyList (map PyStr [''graphene'', ''delivery'']))"
    by (simp add: sample_query_def)
  have t': "map_of sample_query_other ''topic'' = Some (PyStr ''graphene quantum dots for drug delivery'')"
    by (simp add: sample_query_other_def)
  have out': "map_of sample_query_other ''target_output'' = Some (PyStr ''Prior art matrix'')"
    by (simp add: sample_query_other_def)
  have ks': "map_of sample_query_other ''keywords'' = Some (PyList (map PyStr [''nanomedicine'']))"
    by (simp add: sample_query_other_def)
  have "PyDict sample_query \<noteq> PyDict sample_query_other"
    by (simp add: sample_query_def sample_query_other_def)
  with plan_wrapper_depends_on_topic_only
         [OF sample_reads_query t out ks sample_reads_query_other t' out' ks']
  show ?thesis by (rule conjI [rotated])
qed

text \<open>
  Claim C4, as amended. For every topic and target_output text, a ResearchQuery payload
  whose \<^verbatim>\<open>keywords\<close> field is an empty list passes validation, giving a query with no
  keywords, and the plan wrapper proceeds and returns the plan for the topic.
\<close>

theorem empty_keywords_accepted:
  assumes "map_of d ''topic'' = Some (PyStr t)"
      and "map_of d ''target_output'' = Some (PyStr out)"
      and "map_of d ''keywords'' = Some (PyList [])"
      and "json_loads rt text = Some (PyDict d)"
  shows "validate_ResearchQuery rt d = Inr \<lparr>topic = t, target_output = out, keywords = []\<rparr> \<and>
         snd (create_workflow_plan rt text) =
           Inr (''Plan successful. Session ID: sess-'' @ show_int (py_hash rt (use_case_text t))
                  @ ''. Workflow steps: ''
                  @ py_repr (PyList (workflow_steps (PyStr ''arxiv_search_tool_slug'')
                                       (PyStr ''pubchem_query_tool_slug'')))
                  @ ''.'')"
proof -
  from assms(3) have k: "map_of d ''keywords'' = Some (PyList (map PyStr []))" by simp
  note v = validate_ResearchQuery_strings [OF assms(1,2) k, of rt]
  from v have "validate_ResearchQuery rt d = Inr \<lparr>topic = t, target_output = out, keywords = []\<rparr>" .
  moreover have "snd (create_workflow_plan rt text) =
           Inr (''Plan successful. Session ID: sess-'' @ show_int (py_hash rt (use_case_text t))
                  @ ''. Workflow steps: ''
                  @ py_repr (PyList (workflow_steps (PyStr ''arxiv_search_tool_slug'')
                                       (PyStr ''pubchem_query_tool_slug'')))
                  @ ''.'')"
    by (simp add: plan_wrapper_result [OF assms(4) v] del: py_repr.simps)
  ultimately show ?thesis by (rule conjI)
qed

theorem empty_keywords_accepted_witness:
  "map_of sample_query_no_keywords ''keywords'' = Some (PyList []) \<and>
   validate_ResearchQuery sample_rt sample_query_no_keywords =
     Inr \<lparr>topic = ''graphene quantum dots for drug delivery'',
          target_output = ''Draft full experimental protocol'', keywords = []\<rparr> \<and>
   snd (create_workflow_plan sample_rt (json_dumps (PyDict sample_query_no_keywords))) =
     Inr (''Plan successful. Session ID: sess-8. Workflow steps: ''
            @ py_repr (PyList (workflow_steps (PyStr ''arxiv_search_tool_slug'')
                                 (PyStr ''pubchem_query_tool_slug'')))
            @ ''.'')"
proof -
  have t: "map_of sample_query_no_keywords ''topic'' = Some (PyStr ''graphene quantum dots for drug delivery'')"
    by (simp add: sample_query_no_keywords_def)
  have out: "map_of sample_query_no_keywords ''target_output'' = Some (PyStr ''Draft full experimental protocol'')"
    by (simp add: sample_query_no_keywords_def)
  have ks: "map_of sample_query_no_keywords ''keywords'' = Some (PyList [])"
    by (simp add: sample_query_no_keywords_def)
  from empty_keywords_accepted [OF t out ks sample_reads_query_no_keywords] ks
  show ?thesis
    by (simp add: sample_session del: py_repr.simps json_dumps.simps)
qed

text \<open>A payload with an empty keyword list is validated and planned, not rejected.\<close>

theorem empty_keywords_counterexample:
  "validate_ResearchQuery sample_rt
     [(''topic'', PyStr ''graphene''), (''target_output'', PyStr ''protocol''),
      (''keywords'', PyList [])] =
     Inr \<lparr>topic = ''graphene'', target_output = ''protocol'', keywords = []\<rparr> \<and>
   snd (create_workflow_plan sample_rt (json_dumps (PyDict sample_query_no_keywords))) =
     Inr (''Plan successful. Session ID: sess-8. Workflow steps: ''
            @ py_repr (PyList (workflow_steps (PyStr ''arxiv_search_tool_slug'')
                                 (PyStr ''pubchem_query_tool_slug'')))
            @ ''.'')"
proof -
  have v: "validate_ResearchQuery sample_rt sample_query_no_keywords =
     Inr \<lparr>topic = ''graphene quantum dots for drug delivery'',
          target_output = ''Draft full experimental protocol'', keywords = []\<rparr>"
    by (simp add: validate_ResearchQuery_def str_field_def list_str_field_def
        sample_query_no_keywords_def)
  have "validate_ResearchQuery sample_rt
     [(''topic'', PyStr ''graphene''), (''target_output'', PyStr ''protocol''),
      (''keywords'', PyList [])] =
     Inr \<lparr>topic = ''graphene'', target_output = ''protocol'', keywords = []\<rparr>"
    by (simp add: validate_ResearchQuery_def str_field_def list_str_field_def)
  then show ?thesis
    by (simp add: plan_wrapper_result [OF sample_reads_query_no_keywords v] sample_session
        del: py_repr.simps json_dumps.simps)
qed

subsection \<open>The publish wrapper\<close>

lemma FinalSynthesis_no_errors:
  "field_errors rt FinalSynthesis_fields d = [] \<longleftrightarrow>
     str_field rt d ''hypothesis'' \<noteq> None \<and> str_field rt d ''protocol_summary'' \<noteq> None \<and>
     str_field rt d ''analysis_findings'' \<noteq> None \<and>
     list_str_field rt d ''prior_art_reference_links'' \<noteq> None \<and>
     str_field rt d ''next_steps'' \<noteq> None"
  by (simp add: field_errors_def FinalSynthesis_fields_def)

lemma validate_FinalSynthesis_errors:
  assumes "field_errors rt FinalSynthesis_fields d \<noteq> []"
  shows "validate_FinalSynthesis rt d =
           Inl (ValidationError (field_errors rt FinalSynthesis_fields d))"
proof -
  have
    "\<not> (str_field rt d ''hypothesis'' \<noteq> None \<and> str_field rt d ''protocol_summary'' \<noteq> None \<and>
        str_field rt d ''analysis_findings'' \<noteq> None \<and>
        list_str_field rt d ''prior_art_reference_links'' \<noteq> None \<and>
        str_field rt d ''next_steps'' \<noteq> None)"
    using assms FinalSynthesis_no_errors [of rt d] by blast
  then show ?thesis
    by (auto simp: validate_FinalSynthesis_def split: option.splits)
qed

lemma missing_field_reported:
  assumes "name \<in> fst ` set fs" and "map_of d name = None"
  shows "name \<in> set (field_errors rt fs d)"
proof -
  from assms(1) obtain ty where f: "(name, ty) \<in> set fs"
    by auto
  from assms(2) have "\<not> field_ok rt d (name, ty)"
    by (cases ty) (simp_all add: str_field_def list_str_field_def)
  with f have "(name, ty) \<in> set (filter (\<lambda>f. \<not> field_ok rt d f) fs)"
    by simp
  then show ?thesis
    unfolding field_errors_def by force
qed

lemma validate_FinalSynthesis_strings:
  assumes "map_of d ''hypothesis'' = Some (PyStr h)"
      and "map_of d ''protocol_summary'' = Some (PyStr p)"
      and "map_of d ''analysis_findings'' = Some (PyStr a)"
      and "map_of d ''prior_art_reference_links'' = Some (PyList (map PyStr ls))"
      and "map_of d ''next_steps'' = Some (PyStr n)"
  shows "validate_FinalSynthesis rt d =
           Inr \<lparr>hypothesis = h, protocol_summary = p, analysis_findings = a,
                prior_art_reference_links = ls, next_steps = n\<rparr>"
  by (simp add: validate_FinalSynthesis_def str_field_string [OF assms(1)]
      str_field_string [OF assms(2)] str_field_string [OF assms(3)]
      list_str_field_strings [OF assms(4)] str_field_string [OF assms(5)])

lemma publish_rejected:
  assumes "json_loads rt text = Some (PyDict d)"
      and "validate_FinalSynthesis rt d = Inl e"
  shows "publish_final_report rt text = ([], Inr (publish_failure_prefix @ exn_text rt e))"
proof -
  from assms(2) have "e \<noteq> JSONDecodeError"
    by (auto simp: validate_FinalSynthesis_def split: option.splits)
  then show ?thesis
    by (simp add: publish_final_report_def publish_final_report_try_def
        loads_Some [OF assms(1)] assms(2) py_defs)
qed

lemma publish_accepted:
  assumes "json_loads rt text = Some (PyDict d)"
      and "validate_FinalSynthesis rt d = Inr synthesis"
  shows "publish_final_report rt text =
           ([''-> Calling Composio Notion Tool: Creating page '' @ [squote]
               @ hypothesis synthesis @ [squote]],
            Inr (''Final Synthesis published successfully. Report URL: ''
                   @ ''https://notion.com/reports/''
                   @ show_int (py_hash rt (hypothesis synthesis)) @ ''.''))"
  by (simp add: publish_final_report_def publish_final_report_try_def
      loads_Some [OF assms(1)] assms(2) py_defs)

lemma sample_reads_synthesis:
  "json_loads sample_rt (json_dumps (PyDict sample_synthesis)) = Some (PyDict sample_synthesis)"
  by code_simp

lemma sample_reads_synthesis_null:
  "json_loads sample_rt (json_dumps (PyDict sample_synthesis_null)) =
     Some (PyDict sample_synthesis_null)"
  by code_simp

lemma sample_reads_synthesis_missing:
  "json_loads sample_rt (json_dumps (PyDict sample_synthesis_missing)) =
     Some (PyDict sample_synthesis_missing)"
  by code_simp

lemma sample_report_id: "show_int (py_hash sample_rt ''Dots deliver drugs'') = ''-82''"
  by code_simp

lemma sample_missing_errors:
  "exn_text sample_rt (ValidationError (field_errors sample_rt FinalSynthesis_fields sample_synthesis_missing)) =
     ''validation errors for: next_steps''"
  by code_simp

lemma sample_null_invalid:
  "validate_FinalSynthesis sample_rt sample_synthesis_null = Inl (ValidationError [''hypothesis''])"
  by code_simp

lemma sample_null_text:
  "exn_text sample_rt (ValidationError [''hypothesis'']) = ''validation errors for: hypothesis''"
  by code_simp

text \<open>
  Claim C6, as amended. FinalSynthesis has five required fields. For a payload that is a
  JSON object, the publish wrapper returns the validation error text (the failure prefix
  and the text of the validation error, which reports the field) whenever one of the five
  fields is missing, and returns the success confirmation with the report identifier
  derived from the hypothesis whenever every field is present with a value of its declared
  type: a string, and for \<^verbatim>\<open>prior_art_reference_links\<close> a list of strings, which may be
  empty.
\<close>

theorem publish_wrapper_validates:
  assumes "json_loads rt text = Some (PyDict d)"
  shows "length FinalSynthesis_fields = 5 \<and>
         (name \<in> fst ` set FinalSynthesis_fields \<and> map_of d name = None \<longrightarrow>
            name \<in> set (field_errors rt FinalSynthesis_fields d) \<and>
            publish_final_report rt text =
              ([], Inr (publish_failure_prefix
                          @ exn_text rt (ValidationError (field_errors rt FinalSynthesis_fields d))))) \<and>
         (map_of d ''hypothesis'' = Some (PyStr h) \<and>
          map_of d ''protocol_summary'' = Some (PyStr p) \<and>
          map_of d ''analysis_findings'' = Some (PyStr a) \<and>
          map_of d ''prior_art_reference_links'' = Some (PyList (map PyStr ls)) \<and>
          map_of d ''next_steps'' = Some (PyStr n) \<longrightarrow>
            publish_final_report rt text =
              ([''-> Calling Composio Notion Tool: Creating page '' @ [squote] @ h @ [squote]],
               Inr (''Final Synthesis published successfully. Report URL: ''
                      @ ''https://notion.com/reports/'' @ show_int (py_hash rt h) @ ''.'')))"
proof (intro conjI impI)
  show "length FinalSynthesis_fields = 5"
    by (simp add: FinalSynthesis_fields_def)
next
  assume m: "name \<in> fst ` set FinalSynthesis_fields \<and> map_of d name = None"
  then show in_errors: "name \<in> set (field_errors rt FinalSynthesis_fields d)"
    by (simp add: missing_field_reported)
  then have "field_errors rt FinalSynthesis_fields d \<noteq> []"
    by auto
  then have "validate_FinalSynthesis rt d =
           Inl (ValidationError (field_errors rt FinalSynthesis_fields d))"
    by (rule validate_FinalSynthesis_errors)
  then show "publish_final_report rt text =
              ([], Inr (publish_failure_prefix
                          @ exn_text rt (ValidationError (field_errors rt FinalSynthesis_fields d))))"
    by (rule publish_rejected [OF assms])
next
  assume "map_of d ''hypothesis'' = Some (PyStr h) \<and>
          map_of d ''protocol_summary'' = Some (PyStr p) \<and>
          map_of d ''analysis_findings'' = Some (PyStr a) \<and>
          map_of d ''prior_art_reference_links'' = Some (PyList (map PyStr ls)) \<and>
          map_of d ''next_steps'' = Some (PyStr n)"
  then have "validate_FinalSynthesis rt d =
           Inr \<lparr>hypothesis = h, protocol_summary = p, analysis_findings = a,
                prior_art_reference_links = ls, next_steps = n\<rparr>"
    by (simp add: validate_FinalSynthesis_strings)
  from publish_accepted [OF assms this]
  show "publish_final_report rt text =
              ([''-> Calling Composio Notion Tool: Creating page '' @ [squote] @ h @ [squote]],
               Inr (''Final Synthesis published successfully. Report URL: ''
                      @ ''https://notion.com/reports/'' @ show_int (py_hash rt h) @ ''.''))"
    by simp
qed

theorem publish_wrapper_validates_witness:
  "json_loads sample_rt (json_dumps (PyDict sample_synthesis_missing)) =
     Some (PyDict sample_synthesis_missing) \<and>
   ''next_steps'' \<in> fst ` set FinalSynthesis_fields \<and>
   map_of sample_synthesis_missing ''next_steps'' = None \<and>
   publish_final_report sample_rt (json_dumps (PyDict sample_synthesis_missing)) =
     ([], Inr (publish_failure_prefix @ ''validation errors for: next_steps'')) \<and>
   json_loads sample_rt (json_dumps (PyDict sample_synthesis)) = Some (PyDict sample_synthesis) \<and>
   map_of sample_synthesis ''prior_art_reference_links'' = Some (PyList []) \<and>
   publish_final_report sample_rt (json_dumps (PyDict sample_synthesis)) =
     ([''-> Calling Composio Notion Tool: Creating page '' @ [squote] @ ''Dots deliver drugs'' @ [squote]],
      Inr ''Final Synthesis published successfully. Report URL: https://notion.com/reports/-82.'')"
proof -
  have f: "''next_steps'' \<in> fst ` set FinalSynthesis_fields"
    by (simp add: FinalSynthesis_fields_def)
  have m: "map_of sample_synthesis_missing ''next_steps'' = None"
    by (simp add: sample_synthesis_missing_def)
  have l: "map_of sample_synthesis ''prior_art_reference_links'' = Some (PyList [])"
    by (simp add: sample_synthesis_def)
  have p: "map_of sample_synthesis ''hypothesis'' = Some (PyStr ''Dots deliver drugs'') \<and>
      map_of sample_synthesis ''protocol_summary'' = Some (PyStr ''In-vitro assay'') \<and>
      map_of sample_synthesis ''analysis_findings'' = Some (PyStr ''3 compounds passed'') \<and>
      map_of sample_synthesis ''prior_art_reference_links'' = Some (PyList (map PyStr [])) \<and>
      map_of sample_synthesis ''next_steps'' = Some (PyStr ''In-vitro testing'')"
    by (simp add: sample_synthesis_def)
  from publish_wrapper_validates [OF sample_reads_synthesis_missing, of "''next_steps''"] f m
  have 1: "publish_final_report sample_rt (json_dumps (PyDict sample_synthesis_missing)) =
     ([], Inr (publish_failure_prefix @ ''validation errors for: next_steps''))"
    by (simp only: sample_missing_errors simp_thms)
  from publish_wrapper_validates [OF sample_reads_synthesis, of _ "''Dots deliver drugs''"
      "''In-vitro assay''" "''3 compounds passed''" "[]" "''In-vitro testing''"] p
  have 2: "publish_final_report sample_rt (json_dumps (PyDict sample_synthesis)) =
     ([''-> Calling Composio Notion Tool: Creating page '' @ [squote] @ ''Dots deliver drugs'' @ [squote]],
      Inr ''Final Synthesis published successfully. Report URL: https://notion.com/reports/-82.'')"
    by (simp add: sample_report_id del: json_dumps.simps)
  from sample_reads_synthesis_missing f m 1 sample_reads_synthesis l 2 show ?thesis
    by (simp only: simp_thms)
qed

text \<open>
  There are five fields, not six; and a payload with every field present whose
  \<^verbatim>\<open>hypothesis\<close> is \<^verbatim>\<open>null\<close> is rejected.
\<close>

theorem publish_wrapper_counterexample:
  "length FinalSynthesis_fields \<noteq> 6 \<and>
   map fst sample_synthesis_null = map fst FinalSynthesis_fields \<and>
   snd (publish_final_report sample_rt (json_dumps (PyDict sample_synthesis_null))) =
     Inr (publish_failure_prefix @ ''validation errors for: hypothesis'')"
proof -
  have "snd (publish_final_report sample_rt (json_dumps (PyDict sample_synthesis_null))) =
     Inr (publish_failure_prefix @ ''validation errors for: hypothesis'')"
    by (simp only: publish_rejected [OF sample_reads_synthesis_null sample_null_invalid]
        sample_null_text snd_conv)
  then show ?thesis
    by (simp add: FinalSynthesis_fields_def sample_synthesis_null_def del: json_dumps.simps)
qed

subsection \<open>The remote analysis wrapper\<close>

lemma retrieve_loop:
  "py_for (\<lambda>key. remote_workbench rt ''retrieve'' key PyNone) keys =
     (map (\<lambda>key. ''-> Calling REMOTE_WORKBENCH: Retrieved complex data for key: '' @ py_str key)
        (filter (\<lambda>key. key \<in> set known_keys) keys),
      Inr ())"
  by (induction keys) (simp_all add: remote_workbench_def py_defs)

lemma remote_bash_tool_result:
  "remote_bash_tool script =
     ([''-> Calling REMOTE_BASH_TOOL (Simulating Python/Pandas execution)''],
      Inr [(''successful'', PyBool True),
           (''stdout'', PyStr (json_dumps analysis_output)),
           (''stderr'', PyStr []),
           (''execution_time_ms'', PyInt 450)])"
  by (simp add: remote_bash_tool_def py_defs)

lemma run_data_analysis_list:
  assumes "json_loads rt text = Some (PyList keys)"
  shows "run_data_analysis rt text =
           (map (\<lambda>key. ''-> Calling REMOTE_WORKBENCH: Retrieved complex data for key: '' @ py_str key)
              (filter (\<lambda>key. key \<in> set known_keys) keys)
              @ [''-> Calling REMOTE_BASH_TOOL (Simulating Python/Pandas execution)''],
            Inr (analysis_prefix @ json_dumps analysis_output))"
  by (simp add: run_data_analysis_def run_data_analysis_try_def loads_Some [OF assms]
      retrieve_loop remote_bash_tool_result dict_get_Cons dict_item_Cons py_defs
      del: json_dumps.simps py_repr.simps)

lemma sample_reads_keys:
  "json_loads sample_rt (json_dumps sample_keys) =
     Some (PyList [PyStr ''ARXIV-RAW-DATA-KEY-123'', PyStr ''no-such-key'',
                   PyStr ''PUBCHEM-RAW-DATA-KEY-456''])"
  by code_simp

text \<open>
  Claim C8, as amended. For every JSON list of workbench keys, the remote analysis wrapper
  performs one retrieve per key, none of which raises (a known key prints its line, an
  unknown key is answered with a failure result that is ignored), then calls the remote
  execution once, and returns the fixed prefix
  \<^verbatim>\<open>Analysis complete. Raw analysis output (stdout JSON): \<close> followed by the stdout of
  the execution, verbatim.
\<close>

theorem remote_analysis_wrapper:
  assumes "json_loads rt text = Some (PyList keys)"
  shows "py_for (\<lambda>key. remote_workbench rt ''retrieve'' key PyNone) keys =
           (map (\<lambda>key. ''-> Calling REMOTE_WORKBENCH: Retrieved complex data for key: '' @ py_str key)
              (filter (\<lambda>key. key \<in> set known_keys) keys),
            Inr ()) \<and>
         snd (remote_bash_tool script) =
           Inr [(''successful'', PyBool True),
                (''stdout'', PyStr (json_dumps analysis_output)),
                (''stderr'', PyStr []),
                (''execution_time_ms'', PyInt 450)] \<and>
         run_data_analysis rt text =
           (map (\<lambda>key. ''-> Calling REMOTE_WORKBENCH: Retrieved complex data for key: '' @ py_str key)
              (filter (\<lambda>key. key \<in> set known_keys) keys)
              @ [''-> Calling REMOTE_BASH_TOOL (Simulating Python/Pandas execution)''],
            Inr (analysis_prefix @ json_dumps analysis_output))"
  by (simp only: retrieve_loop remote_bash_tool_result run_data_analysis_list [OF assms]
      snd_conv simp_thms)

theorem remote_analysis_wrapper_witness:
  "json_loads sample_rt (json_dumps sample_keys) =
     Some (PyList [PyStr ''ARXIV-RAW-DATA-KEY-123'', PyStr ''no-such-key'',
                   PyStr ''PUBCHEM-RAW-DATA-KEY-456'']) \<and>
   run_data_analysis sample_rt (json_dumps sample_keys) =
     ([''-> Calling REMOTE_WORKBENCH: Retrieved complex data for key: ARXIV-RAW-DATA-KEY-123'',
       ''-> Calling REMOTE_WORKBENCH: Retrieved complex data for key: PUBCHEM-RAW-DATA-KEY-456'',
       ''-> Calling REMOTE_BASH_TOOL (Simulating Python/Pandas execution)''],
      Inr (analysis_prefix @ json_dumps analysis_output))"
proof -
  from remote_analysis_wrapper [OF sample_reads_keys]
  have "run_data_analysis sample_rt (json_dumps sample_keys) =
     ([''-> Calling REMOTE_WORKBENCH: Retrieved complex data for key: ARXIV-RAW-DATA-KEY-123'',
       ''-> Calling REMOTE_WORKBENCH: Retrieved complex data for key: PUBCHEM-RAW-DATA-KEY-456'',
       ''-> Calling REMOTE_BASH_TOOL (Simulating Python/Pandas execution)''],
      Inr (analysis_prefix @ json_dumps analysis_output))"
    by (simp add: known_keys_def del: json_dumps.simps)
  with sample_reads_keys show ?thesis
    by (rule conjI)
qed

text \<open>The text returned is the stdout behind a prefix, not the stdout itself.\<close>

theorem remote_analysis_wrapper_counterexample:
  "snd (run_data_analysis sample_rt (json_dumps sample_keys)) =
     Inr (analysis_prefix @ json_dumps analysis_output) \<and>
   snd (run_data_analysis sample_rt (json_dumps sample_keys)) \<noteq> Inr (json_dumps analysis_output)"
  by (simp add: run_data_analysis_list [OF sample_reads_keys] analysis_prefix_def
      del: json_dumps.simps)

end
